theory Spec2Isabelle
  imports Main
begin

section \<open>The data of the program\<close>

text \<open>
  Go's \<open>int\<close> and \<open>int64\<close> values are modelled as \<open>int\<close>: the program only stores,
  compares and prints them, it never does arithmetic on them, so no wrap-around can occur.
  A Go \<open>string\<close> is a sequence of bytes, modelled as \<open>string\<close> (a list of 8-bit \<open>char\<close>).
  An \<open>error\<close> value is modelled by its message.
\<close>

type_synonym error = string

text \<open>
  The part of \<open>spaceDescriptor\<close> that \<open>updateStatus\<close> reads and writes through the three
  pointers \<open>peoplePresent\<close>, \<open>spaceStatus\<close> and \<open>lastChange\<close>.
\<close>

record Status =
  Open :: bool
  PeopleNowPresent :: int
  Lastchange :: int

section \<open>updateStatus\<close>

text \<open>
  The body of the loop of \<open>updateStatus\<close>, run under the write lock of \<open>spaceDescriptor\<close>
  for one message \<open>numOfPeople\<close> of \<open>statusChan\<close>. The second component \<open>now\<close> is what
  \<open>time.Now().Unix()\<close> would return while the message is processed; the code reads the
  clock only when the count has changed.
\<close>

definition updateStatus_step :: "int \<times> int \<Rightarrow> Status \<Rightarrow> Status" where
  "updateStatus_step msg s =
     (let numOfPeople = fst msg; now = snd msg;
          previousPeoplePresent = PeopleNowPresent s;
          s1 = s\<lparr>PeopleNowPresent := numOfPeople\<rparr>;
          s2 = s1\<lparr>Open := PeopleNowPresent s1 > 0\<rparr>
      in if previousPeoplePresent \<noteq> PeopleNowPresent s2
         then s2\<lparr>Lastchange := now\<rparr>
         else s2)"

text \<open>
  \<open>for numOfPeople := range statusChan\<close>: the messages received so far, in the order in
  which the channel delivered them.
\<close>

fun updateStatus :: "(int \<times> int) list \<Rightarrow> Status \<Rightarrow> Status" where
  "updateStatus [] s = s"
| "updateStatus (msg # msgs) s = updateStatus msgs (updateStatus_step msg s)"

section \<open>Library functions used by the event extraction\<close>

text \<open>
  \<open>strings.Fields\<close> splits a string around each run of white space characters, as
  defined by \<open>unicode.IsSpace\<close>, and returns no field at all for a string of white space
  only. White space is: the ASCII characters tab, line feed, vertical tab, form feed,
  carriage return and space; U+0085 and U+00A0 (in UTF-8 the bytes C2 85 and C2 A0);
  U+1680 (E1 9A 80); U+2000 to U+200A (E2 80 80 to E2 80 8A); U+2028, U+2029 and U+202F
  (E2 80 A8, E2 80 A9, E2 80 AF); U+205F (E2 81 9F); U+3000 (E3 80 80). Go's UTF-8
  decoder consumes after a leading byte only continuation bytes (80 to BF), so each of
  these leading bytes always starts a rune, and recognising the byte sequences is the
  same as decoding runes first.
\<close>

definition asciiSpace :: "char \<Rightarrow> bool" where
  "asciiSpace c = (c \<in> set [CHR 0x09, CHR 0x0A, CHR 0x0B, CHR 0x0C, CHR 0x0D, CHR 0x20])"

definition unicodeSpace2 :: "string list" where
  "unicodeSpace2 = [[CHR 0xC2, CHR 0x85], [CHR 0xC2, CHR 0xA0]]"

definition unicodeSpace3 :: "string list" where
  "unicodeSpace3 =
     [[CHR 0xE1, CHR 0x9A, CHR 0x80],
      [CHR 0xE2, CHR 0x80, CHR 0x80], [CHR 0xE2, CHR 0x80, CHR 0x81],
      [CHR 0xE2, CHR 0x80, CHR 0x82], [CHR 0xE2, CHR 0x80, CHR 0x83],
      [CHR 0xE2, CHR 0x80, CHR 0x84], [CHR 0xE2, CHR 0x80, CHR 0x85],
      [CHR 0xE2, CHR 0x80, CHR 0x86], [CHR 0xE2, CHR 0x80, CHR 0x87],
      [CHR 0xE2, CHR 0x80, CHR 0x88], [CHR 0xE2, CHR 0x80, CHR 0x89],
      [CHR 0xE2, CHR 0x80, CHR 0x8A],
      [CHR 0xE2, CHR 0x80, CHR 0xA8], [CHR 0xE2, CHR 0x80, CHR 0xA9],
      [CHR 0xE2, CHR 0x80, CHR 0xAF],
      [CHR 0xE2, CHR 0x81, CHR 0x9F],
      [CHR 0xE3, CHR 0x80, CHR 0x80]]"

text \<open>The number of bytes of the white space rune a string starts with; 0 when it starts
  with none.\<close>

definition spaceWidth :: "string \<Rightarrow> nat" where
  "spaceWidth s =
     (case s of
        [] \<Rightarrow> 0
      | c # _ \<Rightarrow>
          if asciiSpace c then 1
          else if take 2 s \<in> set unicodeSpace2 then 2
          else if take 3 s \<in> set unicodeSpace3 then 3
          else 0)"

text \<open>
  The scan of \<open>strings.Fields\<close>: \<open>skip\<close> counts the bytes still to pass of the white
  space rune being read, \<open>cur\<close> is the field being read (empty between fields).
\<close>

fun FieldsFrom :: "nat \<Rightarrow> string \<Rightarrow> string \<Rightarrow> string list" where
  "FieldsFrom skip cur [] = (if cur = [] then [] else [cur])"
| "FieldsFrom skip cur (c # cs) =
     (if skip > 0 then FieldsFrom (skip - 1) cur cs
      else if spaceWidth (c # cs) > 0
        then (if cur = [] then [] else [cur]) @ FieldsFrom (spaceWidth (c # cs) - 1) [] cs
        else FieldsFrom 0 (cur @ [c]) cs)"

definition Fields :: "string \<Rightarrow> string list" where
  "Fields s = FieldsFrom 0 [] s"

text \<open>\<open>strings.Join(elems, sep)\<close>.\<close>

fun Join :: "string list \<Rightarrow> string \<Rightarrow> string" where
  "Join [] sep = []"
| "Join [x] sep = x"
| "Join (x # y # ys) sep = x @ sep @ Join (y # ys) sep"

text \<open>
  The two regular expressions are sequences of single-character items, anchored by \<open>^\<close>
  at the start of the text and not anchored at its end: \<open>MatchString\<close> holds when the
  text starts with characters matching the items in turn. In Go's syntax \<open>\d\<close> is an
  ASCII digit and \<open>\/\<close> is the character \<open>/\<close>.
\<close>

definition digit :: "char \<Rightarrow> bool" where
  "digit c = (c \<in> set ''0123456789'')"

definition lit :: "char \<Rightarrow> char \<Rightarrow> bool" where
  "lit a c = (c = a)"

fun MatchString :: "(char \<Rightarrow> bool) list \<Rightarrow> string \<Rightarrow> bool" where
  "MatchString [] s = True"
| "MatchString (p # ps) [] = False"
| "MatchString (p # ps) (c # cs) = (p c \<and> MatchString ps cs)"

definition yearRegexp :: "(char \<Rightarrow> bool) list" where
  "yearRegexp = [digit, digit, lit CHR ''/'', digit, digit, lit CHR ''/'',
                 digit, digit, digit, digit]"

definition hourRegexp :: "(char \<Rightarrow> bool) list" where
  "hourRegexp = [digit, digit, lit CHR '':'', digit, digit]"

text \<open>
  The patterns as the specification words them, matching a whole token \<open>DD/DD/DDDD\<close> or
  \<open>DD:DD\<close> and nothing longer: the same items, and a text of exactly their length.
\<close>

definition strictMatch :: "(char \<Rightarrow> bool) list \<Rightarrow> string \<Rightarrow> bool" where
  "strictMatch ps s = (length s = length ps \<and> MatchString ps s)"

text \<open>\<open>fmt.Sprintf\<close> with \<open>%v\<close> on an \<open>int\<close>: its decimal digits, after \<open>-\<close> when
  negative.\<close>

fun showNat :: "nat \<Rightarrow> string" where
  "showNat n =
     (if n < 10 then [''0123456789'' ! n]
      else showNat (n div 10) @ [''0123456789'' ! (n mod 10)])"

definition showInt :: "int \<Rightarrow> string" where
  "showInt i = (if i < 0 then ''-'' @ showNat (nat (- i)) else showNat (nat i))"

section \<open>The event extraction of getScheduledEvents\<close>

text \<open>An element of \<open>DiscourseApi.TopicList.Topics\<close>.\<close>

record Topic =
  ID :: int
  Title :: string
  Slug :: string

record HackerspaceEvents =
  Title :: string
  Date :: string
  Begin :: string
  End :: string
  URL :: string

text \<open>The run-time panics the code can raise; none is recovered, so each ends the
  process.\<close>

datatype panic = IndexOutOfRange | SliceBoundsOutOfRange | NilPointerDereference

text \<open>\<open>fields[i]\<close> and \<open>fields[n:]\<close> with Go's bounds checks (the slice \<open>fields\<close> of the
  source is \<open>flds\<close> here, \<open>fields\<close> being a constant of every record type).\<close>

definition index :: "string list \<Rightarrow> nat \<Rightarrow> panic + string" where
  "index flds i = (if i < length flds then Inr (flds ! i) else Inl IndexOutOfRange)"

definition sliceFrom :: "string list \<Rightarrow> nat \<Rightarrow> panic + string list" where
  "sliceFrom flds n =
     (if n \<le> length flds then Inr (drop n flds) else Inl SliceBoundsOutOfRange)"

text \<open>
  The body of the loop over \<open>dat.TopicList.Topics\<close> for one element: a panic, or no
  event (\<open>ret\<close> is left as it is), or the event appended to \<open>ret\<close>. The operator \<open>&&\<close>
  evaluates \<open>fields[3]\<close> only when \<open>fields[2] == "-"\<close>.
\<close>

definition parseElement :: "Topic \<Rightarrow> panic + HackerspaceEvents option" where
  "parseElement element =
     (let flds = Fields (Topic.Title element);
          url = ''https://community.lambdaspace.gr/t/'' @ Slug element @ ''/'' @
                showInt (ID element)
      in case index flds 0 of Inl p \<Rightarrow> Inl p | Inr f0 \<Rightarrow>
         if MatchString yearRegexp f0 then
           (case index flds 1 of Inl p \<Rightarrow> Inl p | Inr f1 \<Rightarrow>
            if MatchString hourRegexp f1 then
              (case (case index flds 2 of Inl p \<Rightarrow> Inl p | Inr f2 \<Rightarrow>
                       if f2 = ''-''
                       then (case index flds 3 of Inl p \<Rightarrow> Inl p
                             | Inr f3 \<Rightarrow> Inr (MatchString hourRegexp f3))
                       else Inr False) of
                 Inl p \<Rightarrow> Inl p
               | Inr True \<Rightarrow>
                   (case index flds 3 of Inl p \<Rightarrow> Inl p | Inr f3 \<Rightarrow>
                    case sliceFrom flds 4 of Inl p \<Rightarrow> Inl p | Inr rest \<Rightarrow>
                      Inr (Some \<lparr>Title = Join rest '' '', Date = f0, Begin = f1,
                                 End = f3, URL = url\<rparr>))
               | Inr False \<Rightarrow>
                   (case sliceFrom flds 2 of Inl p \<Rightarrow> Inl p | Inr rest \<Rightarrow>
                      Inr (Some \<lparr>Title = Join rest '' '', Date = f0, Begin = f1,
                                 End = [], URL = url\<rparr>)))
            else Inr None)
         else Inr None)"

text \<open>\<open>for _, element := range dat.TopicList.Topics\<close>, with \<open>ret\<close> the events appended
  so far.\<close>

fun parseLoop :: "Topic list \<Rightarrow> HackerspaceEvents list \<Rightarrow> panic + HackerspaceEvents list" where
  "parseLoop [] ret = Inr ret"
| "parseLoop (element # rest) ret =
     (case parseElement element of
        Inl p \<Rightarrow> Inl p
      | Inr None \<Rightarrow> parseLoop rest ret
      | Inr (Some event) \<Rightarrow> parseLoop rest (ret @ [event]))"

text \<open>The event an element adds to \<open>ret\<close>, if it adds one (used to state what the loop
  returns).\<close>

definition produced :: "Topic \<Rightarrow> HackerspaceEvents option" where
  "produced t = (case parseElement t of Inr (Some e) \<Rightarrow> Some e | _ \<Rightarrow> None)"

section \<open>fetchHTTPResource and getScheduledEvents\<close>

text \<open>
  What the outside world answers. \<open>httpClient.Get\<close> returns a pair of a response
  pointer (\<open>None\<close> for \<open>nil\<close>) and an error (\<open>None\<close> for \<open>nil\<close>); of a response the code
  uses only its body, given here by what \<open>ioutil.ReadAll\<close> returns on it: the bytes read
  and an error.
\<close>

record Response =
  Body :: "string \<times> error option"

text \<open>The state the refresh acts on: \<open>spaceEvents.Events\<close>, and the lines written to the
  log so far.\<close>

record state =
  Events :: "HackerspaceEvents list"
  Log :: "error list"

definition check :: "error option \<Rightarrow> error list \<Rightarrow> error list" where
  "check err lg = (case err of None \<Rightarrow> lg | Some e \<Rightarrow> lg @ [e])"

text \<open>
  \<open>defer response.Body.Close()\<close> evaluates \<open>response.Body\<close> when the \<open>defer\<close> statement
  runs, after \<open>check(err)\<close> and before the body is read: on a \<open>nil\<close> response it panics.
  The second \<open>err\<close>, of \<open>ioutil.ReadAll\<close>, is the one returned.
\<close>

definition fetchHTTPResource ::
  "Response option \<times> error option \<Rightarrow> error list \<Rightarrow>
     (panic \<times> error list) + ((string \<times> error option) \<times> error list)" where
  "fetchHTTPResource got lg =
     (let response = fst got; err = snd got;
          lg1 = check err lg
      in case response of
           None \<Rightarrow> Inl (NilPointerDereference, lg1)
         | Some r \<Rightarrow>
             (let responseBody = fst (Body r); err2 = snd (Body r);
                  lg2 = check err2 lg1
              in Inr ((responseBody, err2), lg2)))"

text \<open>
  \<open>getScheduledEvents\<close>. The parameter \<open>unmarshal\<close> stands for \<open>json.Unmarshal\<close> into a
  fresh \<open>DiscourseApi\<close>: from the bytes, the topics left in \<open>dat.TopicList.Topics\<close> and
  the error. The function has no result in Go; the model returns the state it leaves, or
  the panic and the state at the panic.
\<close>

definition getScheduledEvents ::
  "(string \<Rightarrow> Topic list \<times> error option) \<Rightarrow> Response option \<times> error option \<Rightarrow>
     state \<Rightarrow> (panic \<times> state) + state" where
  "getScheduledEvents unmarshal got s =
     (case fetchHTTPResource got (Log s) of
        Inl (p, lg) \<Rightarrow> Inl (p, s\<lparr>Log := lg\<rparr>)
      | Inr ((response, err), lg) \<Rightarrow>
          (case err of
             Some e \<Rightarrow> Inr (s\<lparr>Log := lg @ [e]\<rparr>)
           | None \<Rightarrow>
               (let topics = fst (unmarshal response); err1 = snd (unmarshal response);
                    lg1 = check err1 lg
                in case parseLoop topics [] of
                     Inl p \<Rightarrow> Inl (p, s\<lparr>Log := lg1\<rparr>)
                   | Inr ret \<Rightarrow>
                       if length ret > 0 then Inr (s\<lparr>Events := ret, Log := lg1\<rparr>)
                       else Inr (s\<lparr>Log := lg1\<rparr>))))"

section \<open>Properties of updateStatus\<close>

lemma updateStatus_step_count:
  "PeopleNowPresent (updateStatus_step (c, now) s) = c"
  by (simp add: updateStatus_step_def Let_def)

lemma updateStatus_step_open:
  "Open (updateStatus_step msg s) = (PeopleNowPresent (updateStatus_step msg s) > 0)"
  by (simp add: updateStatus_step_def Let_def)

lemma updateStatus_step_lastchange:
  "Lastchange (updateStatus_step (c, now) s) =
     (if PeopleNowPresent s \<noteq> c then now else Lastchange s)"
  by (simp add: updateStatus_step_def Let_def)

lemma updateStatus_append:
  "updateStatus (xs @ ys) s = updateStatus ys (updateStatus xs s)"
  by (induction xs arbitrary: s) simp_all

lemma updateStatus_snoc:
  "updateStatus (xs @ [msg]) s = updateStatus_step msg (updateStatus xs s)"
  by (simp add: updateStatus_append)

text \<open>
  Claim C3. For every sequence of messages, whatever the integers (negative ones
  included) and whatever the state before, the state after each processed message has
  \<open>Open\<close> equal to \<open>PeopleNowPresent > 0\<close>: this holds after every non-empty prefix of
  the sequence.
\<close>

theorem updateStatus_open_invariant:
  "0 < k \<Longrightarrow> k \<le> length msgs \<Longrightarrow>
   Open (updateStatus (take k msgs) s) = (PeopleNowPresent (updateStatus (take k msgs) s) > 0)"
proof -
  assume k: "0 < k" "k \<le> length msgs"
  then have "take k msgs \<noteq> []" by auto
  then obtain xs msg where split: "take k msgs = xs @ [msg]"
    by (metis rev_exhaust)
  show ?thesis
    unfolding split updateStatus_snoc by (rule updateStatus_step_open)
qed

theorem updateStatus_open_invariant_witness:
  "Open (updateStatus (take 2 [(3, 100), (-5, 200), (0, 300)])
           \<lparr>Open = True, PeopleNowPresent = 0, Lastchange = 7\<rparr>) = False
   \<and> PeopleNowPresent (updateStatus (take 2 [(3, 100), (-5, 200), (0, 300)])
           \<lparr>Open = True, PeopleNowPresent = 0, Lastchange = 7\<rparr>) = -5"
  using updateStatus_open_invariant [of 2 "[(3, 100), (-5, 200), (0, 300)]"
      "\<lparr>Open = True, PeopleNowPresent = 0, Lastchange = 7\<rparr>"]
  by (simp add: updateStatus_step_def Let_def)

lemma updateStatus_same_count:
  "PeopleNowPresent s = c \<Longrightarrow>
   Lastchange (updateStatus (map (\<lambda>now. (c, now)) nows) s) = Lastchange s"
proof (induction nows arbitrary: s)
  case Nil
  then show ?case by simp
next
  case (Cons now nows)
  have count: "PeopleNowPresent (updateStatus_step (c, now) s) = c"
    by (rule updateStatus_step_count)
  have "Lastchange (updateStatus_step (c, now) s) = Lastchange s"
    using Cons.prems by (simp add: updateStatus_step_lastchange)
  with Cons.IH [OF count] show ?case by simp
qed

text \<open>
  Claim C4. Two consecutive ingestions of \<open>c1\<close> and then \<open>c2\<close>: the second one writes the
  clock reading into \<open>Lastchange\<close> when \<open>c1 \<noteq> c2\<close> and leaves \<open>Lastchange\<close> as the first
  one left it when \<open>c1 = c2\<close>. And after a first ingestion of \<open>c\<close>, ingesting the same \<open>c\<close>
  any number of times, at any clock readings, leaves \<open>Lastchange\<close> as it was after the
  first.
\<close>

theorem updateStatus_lastchange_iff_changed:
  "Lastchange (updateStatus [(c1, now1), (c2, now2)] s) =
     (if c1 \<noteq> c2 then now2 else Lastchange (updateStatus [(c1, now1)] s))
   \<and> Lastchange (updateStatus ((c, now) # map (\<lambda>t. (c, t)) nows) s) =
       Lastchange (updateStatus [(c, now)] s)"
proof
  show "Lastchange (updateStatus [(c1, now1), (c2, now2)] s) =
     (if c1 \<noteq> c2 then now2 else Lastchange (updateStatus [(c1, now1)] s))"
    by (simp add: updateStatus_step_lastchange updateStatus_step_count)
next
  have "PeopleNowPresent (updateStatus_step (c, now) s) = c"
    by (rule updateStatus_step_count)
  then have "Lastchange (updateStatus (map (\<lambda>t. (c, t)) nows) (updateStatus_step (c, now) s)) =
      Lastchange (updateStatus_step (c, now) s)"
    by (rule updateStatus_same_count)
  then show "Lastchange (updateStatus ((c, now) # map (\<lambda>t. (c, t)) nows) s) =
       Lastchange (updateStatus [(c, now)] s)"
    by simp
qed

theorem updateStatus_lastchange_iff_changed_witness:
  "Lastchange (updateStatus [(3, 100), (4, 200)]
       \<lparr>Open = False, PeopleNowPresent = 0, Lastchange = 7\<rparr>) = 200
   \<and> Lastchange (updateStatus [(3, 100), (3, 200)]
       \<lparr>Open = False, PeopleNowPresent = 0, Lastchange = 7\<rparr>) = 100
   \<and> Lastchange (updateStatus ((3, 100) # map (\<lambda>t. (3, t)) [200, 300, 400])
       \<lparr>Open = False, PeopleNowPresent = 0, Lastchange = 7\<rparr>) = 100"
  using
    updateStatus_lastchange_iff_changed [of 3 100 4 200
      "\<lparr>Open = False, PeopleNowPresent = 0, Lastchange = 7\<rparr>" 3 100 "[200, 300, 400]"]
    updateStatus_lastchange_iff_changed [of 3 100 3 200
      "\<lparr>Open = False, PeopleNowPresent = 0, Lastchange = 7\<rparr>" 3 100 "[200, 300, 400]"]
  by (simp add: updateStatus_step_def Let_def)

section \<open>Properties of the patterns\<close>

lemma MatchString_iff:
  "MatchString ps s \<longleftrightarrow> length ps \<le> length s \<and> (\<forall>i < length ps. (ps ! i) (s ! i))"
proof (induction ps s rule: MatchString.induct)
  case (1 s)
  then show ?case by simp
next
  case (2 p ps)
  then show ?case by simp
next
  case (3 p ps c cs)
  then show ?case by (auto simp: nth_Cons split: nat.splits)
qed

lemma MatchString_append: "MatchString ps s \<Longrightarrow> MatchString ps (s @ extra)"
  by (induction ps s rule: MatchString.induct) simp_all

lemma MatchString_take:
  "MatchString ps s \<Longrightarrow> length ps \<le> length s \<and> MatchString ps (take (length ps) s)"
  by (induction ps s rule: MatchString.induct) simp_all

text \<open>The source's patterns accept exactly the texts that start with a text the strict
  pattern accepts: whatever follows is not looked at.\<close>

lemma MatchString_prefix_strictMatch:
  "MatchString ps s \<longleftrightarrow> (\<exists>pre ext. s = pre @ ext \<and> strictMatch ps pre)"
proof
  assume m: "MatchString ps s"
  have "s = take (length ps) s @ drop (length ps) s" by simp
  moreover have "strictMatch ps (take (length ps) s)"
    using MatchString_take [OF m] by (simp add: strictMatch_def)
  ultimately show "\<exists>pre ext. s = pre @ ext \<and> strictMatch ps pre" by blast
next
  assume "\<exists>pre ext. s = pre @ ext \<and> strictMatch ps pre"
  then obtain pre ext where "s = pre @ ext" "MatchString ps pre"
    by (auto simp: strictMatch_def)
  then show "MatchString ps s" by (simp add: MatchString_append)
qed

section \<open>Properties of the event extraction\<close>

lemma parseElement_Some:
  assumes "parseElement t = Inr (Some e)"
  shows "2 \<le> length (Fields (Topic.Title t))
     \<and> MatchString yearRegexp (Fields (Topic.Title t) ! 0)
     \<and> MatchString hourRegexp (Fields (Topic.Title t) ! 1)
     \<and> Date e = Fields (Topic.Title t) ! 0
     \<and> Begin e = Fields (Topic.Title t) ! 1"
  using assms
  by (auto simp: parseElement_def Let_def index_def sliceFrom_def
      split: if_splits sum.splits bool.splits)

lemma parseElement_no_date:
  "Fields (Topic.Title t) \<noteq> [] \<Longrightarrow>
   \<not> MatchString yearRegexp (Fields (Topic.Title t) ! 0) \<Longrightarrow>
   parseElement t = Inr None"
  by (simp add: parseElement_def Let_def index_def)

lemma parseElement_no_hour:
  "2 \<le> length (Fields (Topic.Title t)) \<Longrightarrow>
   MatchString yearRegexp (Fields (Topic.Title t) ! 0) \<Longrightarrow>
   \<not> MatchString hourRegexp (Fields (Topic.Title t) ! 1) \<Longrightarrow>
   parseElement t = Inr None"
  by (auto simp add: parseElement_def Let_def index_def)

lemma parseElement_no_fields:
  "Fields (Topic.Title t) = [] \<Longrightarrow> parseElement t = Inl IndexOutOfRange"
  by (simp add: parseElement_def Let_def index_def)

lemma parseElement_date_only:
  "length (Fields (Topic.Title t)) = 1 \<Longrightarrow>
   MatchString yearRegexp (Fields (Topic.Title t) ! 0) \<Longrightarrow>
   parseElement t = Inl IndexOutOfRange"
  by (simp add: parseElement_def Let_def index_def)

text \<open>
  Claim C1, at inputs the code can receive: a topic whose title is empty, one whose title
  is white space only, and one whose title is a single token matching the date pattern.
  In each case the indexing of the token list panics, in the loop and so in
  \<open>getScheduledEvents\<close>: the title is not dropped.
\<close>

theorem parseLoop_short_title_panics:
  "parseLoop [\<lparr>ID = 1, Topic.Title = [], Slug = ''s''\<rparr>] [] = Inl IndexOutOfRange
   \<and> parseLoop [\<lparr>ID = 1, Topic.Title = ''   '', Slug = ''s''\<rparr>] [] = Inl IndexOutOfRange
   \<and> parseLoop [\<lparr>ID = 1, Topic.Title = ''12/05/2024'', Slug = ''s''\<rparr>] [] = Inl IndexOutOfRange
   \<and> getScheduledEvents (\<lambda>body. ([\<lparr>ID = 1, Topic.Title = [], Slug = ''s''\<rparr>], None))
        (Some \<lparr>Body = (''{}'', None)\<rparr>, None) \<lparr>Events = [], Log = []\<rparr> =
      Inl (IndexOutOfRange, \<lparr>Events = [], Log = []\<rparr>)"
  by code_simp

text \<open>
  Claim C6, as amended. For every title: an event is produced only if the title has at
  least two tokens, the first starting with two digits, a slash, two digits, a slash and
  four digits, and the second starting with two digits, a colon and two digits (whatever
  follows in the token is accepted, and the whole token becomes the date or the begin);
  a title with a first token that does not start so is dropped, and so is a title whose
  first token does and whose second token does not start with the time pattern.
\<close>

theorem parseElement_prefix_patterns:
  "(parseElement t = Inr (Some e) \<longrightarrow>
      2 \<le> length (Fields (Topic.Title t))
      \<and> MatchString yearRegexp (Fields (Topic.Title t) ! 0)
      \<and> MatchString hourRegexp (Fields (Topic.Title t) ! 1)
      \<and> Date e = Fields (Topic.Title t) ! 0
      \<and> Begin e = Fields (Topic.Title t) ! 1)
   \<and> (Fields (Topic.Title t) \<noteq> [] \<and> \<not> MatchString yearRegexp (Fields (Topic.Title t) ! 0) \<longrightarrow>
      parseElement t = Inr None)
   \<and> (2 \<le> length (Fields (Topic.Title t))
      \<and> MatchString yearRegexp (Fields (Topic.Title t) ! 0)
      \<and> \<not> MatchString hourRegexp (Fields (Topic.Title t) ! 1) \<longrightarrow>
      parseElement t = Inr None)"
  using parseElement_Some [of t e] parseElement_no_date [of t] parseElement_no_hour [of t]
  by blast

theorem parseElement_prefix_patterns_witness:
  "parseElement \<lparr>ID = 1, Topic.Title = ''12/05/20245 18:005 Party'', Slug = ''s''\<rparr> =
     Inr (Some \<lparr>Title = ''Party'', Date = ''12/05/20245'', Begin = ''18:005'', End = [],
                URL = ''https://community.lambdaspace.gr/t/s/1''\<rparr>)
   \<and> MatchString yearRegexp ''12/05/20245'' \<and> MatchString hourRegexp ''18:005''
   \<and> parseElement \<lparr>ID = 2, Topic.Title = ''Open Social Night'', Slug = ''s''\<rparr> = Inr None
   \<and> parseElement \<lparr>ID = 3, Topic.Title = ''12/05/2024 6pm Party'', Slug = ''s''\<rparr> = Inr None"
proof -
  let ?t1 = "\<lparr>ID = 1, Topic.Title = ''12/05/20245 18:005 Party'', Slug = ''s''\<rparr>"
  let ?e1 = "\<lparr>Title = ''Party'', Date = ''12/05/20245'', Begin = ''18:005'', End = [],
                URL = ''https://community.lambdaspace.gr/t/s/1''\<rparr>"
  let ?t2 = "\<lparr>ID = 2, Topic.Title = ''Open Social Night'', Slug = ''s''\<rparr>"
  let ?t3 = "\<lparr>ID = 3, Topic.Title = ''12/05/2024 6pm Party'', Slug = ''s''\<rparr>"
  have f1: "Fields (Topic.Title ?t1) = [''12/05/20245'', ''18:005'', ''Party'']"
    by code_simp
  have p1: "parseElement ?t1 = Inr (Some ?e1)"
    by code_simp
  have f2: "Fields (Topic.Title ?t2) = [''Open'', ''Social'', ''Night'']"
    by code_simp
  have n2: "\<not> MatchString yearRegexp ''Open''"
    by code_simp
  have f3: "Fields (Topic.Title ?t3) = [''12/05/2024'', ''6pm'', ''Party'']"
    by code_simp
  have y3: "MatchString yearRegexp ''12/05/2024''"
    by code_simp
  have n3: "\<not> MatchString hourRegexp ''6pm''"
    by code_simp
  from parseElement_prefix_patterns [of ?t1 ?e1] p1 f1
  have m1: "MatchString yearRegexp ''12/05/20245'' \<and> MatchString hourRegexp ''18:005''"
    by simp
  from parseElement_prefix_patterns [of ?t2] f2 n2
  have p2: "parseElement ?t2 = Inr None"
    by simp
  from parseElement_prefix_patterns [of ?t3] f3 y3 n3
  have p3: "parseElement ?t3 = Inr None"
    by simp
  from p1 m1 p2 p3 show ?thesis by blast
qed

text \<open>
  Claim C6 as it is stated fails: the title \<open>12/05/20245 18:005 Party\<close>, whose first two
  tokens have a character more than the strict patterns allow, is not dropped; it yields
  an event with these tokens as date and begin.
\<close>

theorem parseLoop_trailing_characters_counterexample:
  "parseLoop [\<lparr>ID = 1, Topic.Title = ''12/05/20245 18:005 Party'', Slug = ''s''\<rparr>] [] =
     Inr [\<lparr>Title = ''Party'', Date = ''12/05/20245'', Begin = ''18:005'', End = [],
           URL = ''https://community.lambdaspace.gr/t/s/1''\<rparr>]
   \<and> \<not> strictMatch yearRegexp ''12/05/20245''
   \<and> \<not> strictMatch hourRegexp ''18:005''"
  by code_simp

text \<open>
  Claim C7. The topic with title \<open>12/05/2024 18:00 - 20:00 Lockpicking Workshop\<close>, slug
  \<open>lockpicking-night\<close> and id 42 yields exactly one event: date \<open>12/05/2024\<close>, begin
  \<open>18:00\<close>, end \<open>20:00\<close>, title \<open>Lockpicking Workshop\<close> and url
  \<open>https://community.lambdaspace.gr/t/lockpicking-night/42\<close>.
\<close>

theorem parseLoop_Lockpicking_Workshop:
  "parseLoop [\<lparr>ID = 42, Topic.Title = ''12/05/2024 18:00 - 20:00 Lockpicking Workshop'',
               Slug = ''lockpicking-night''\<rparr>] [] =
     Inr [\<lparr>Title = ''Lockpicking Workshop'', Date = ''12/05/2024'', Begin = ''18:00'',
           End = ''20:00'',
           URL = ''https://community.lambdaspace.gr/t/lockpicking-night/42''\<rparr>]"
  by code_simp

lemma Fields_General_Meetup:
  "Fields ''12/05/2024 18:00 General Meetup'' =
     [''12/05/2024'', ''18:00'', ''General'', ''Meetup'']"
  by code_simp

text \<open>
  Claim C8. The topic with title \<open>12/05/2024 18:00 General Meetup\<close>, whatever its slug and
  id, yields exactly one event: date \<open>12/05/2024\<close>, begin \<open>18:00\<close>, the empty string as
  end, and title \<open>General Meetup\<close>, which is the tokens from index 2 on joined by a space.
\<close>

theorem parseLoop_General_Meetup:
  "parseLoop [\<lparr>ID = n, Topic.Title = ''12/05/2024 18:00 General Meetup'', Slug = slug\<rparr>] [] =
     Inr [\<lparr>Title = ''General Meetup'', Date = ''12/05/2024'', Begin = ''18:00'', End = [],
           URL = ''https://community.lambdaspace.gr/t/'' @ slug @ ''/'' @ showInt n\<rparr>]
   \<and> Join (drop 2 (Fields ''12/05/2024 18:00 General Meetup'')) '' '' = ''General Meetup''"
proof -
  have year: "MatchString yearRegexp ''12/05/2024''" by code_simp
  have hour: "MatchString hourRegexp ''18:00''" by code_simp
  have "parseElement \<lparr>ID = n, Topic.Title = ''12/05/2024 18:00 General Meetup'', Slug = slug\<rparr> =
      Inr (Some \<lparr>Title = ''General Meetup'', Date = ''12/05/2024'', Begin = ''18:00'',
                 End = [],
                 URL = ''https://community.lambdaspace.gr/t/'' @ slug @ ''/'' @ showInt n\<rparr>)"
    by (simp add: parseElement_def Fields_General_Meetup index_def sliceFrom_def year hour Let_def)
  then show ?thesis by (simp add: Fields_General_Meetup)
qed

lemma parseLoop_acc:
  "parseLoop ts acc = Inr ret \<Longrightarrow> ret = acc @ List.map_filter produced ts"
proof (induction ts arbitrary: acc)
  case Nil
  then show ?case by (simp add: List.map_filter_simps)
next
  case (Cons t ts)
  show ?case
  proof (cases "parseElement t")
    case (Inl p)
    with Cons.prems show ?thesis by simp
  next
    case (Inr r)
    show ?thesis
    proof (cases r)
      case None
      with Inr Cons.prems have "parseLoop ts acc = Inr ret" by simp
      from Cons.IH [OF this] Inr None show ?thesis
        by (simp add: List.map_filter_simps produced_def)
    next
      case (Some e)
      with Inr Cons.prems have "parseLoop ts (acc @ [e]) = Inr ret" by simp
      from Cons.IH [OF this] Inr Some show ?thesis
        by (simp add: List.map_filter_simps produced_def)
    qed
  qed
qed

lemma map_filter_append:
  "List.map_filter f (xs @ ys) = List.map_filter f xs @ List.map_filter f ys"
  by (simp add: List.map_filter_def)

lemma map_filter_order:
  assumes "i < j" "j < length xs" "f (xs ! i) = Some a" "f (xs ! j) = Some b"
  shows "\<exists>i' j'. i' < j' \<and> j' < length (List.map_filter f xs)
           \<and> List.map_filter f xs ! i' = a \<and> List.map_filter f xs ! j' = b"
proof -
  define pre where "pre = take i xs"
  define mid where "mid = take (j - i - 1) (drop (Suc i) xs)"
  define post where "post = drop (Suc j) xs"
  have i: "i < length xs" using assms by simp
  have xs1: "xs = pre @ xs ! i # drop (Suc i) xs"
    unfolding pre_def using i by (simp add: id_take_nth_drop [symmetric])
  have j': "j - i - 1 < length (drop (Suc i) xs)" using assms by simp
  have "drop (Suc i) xs ! (j - i - 1) = xs ! j" using assms by simp
  moreover have "drop (Suc (j - i - 1)) (drop (Suc i) xs) = post"
    unfolding post_def using assms by simp
  ultimately have xs2: "drop (Suc i) xs = mid @ xs ! j # post"
    unfolding mid_def using id_take_nth_drop [OF j'] by simp
  have xs: "xs = pre @ xs ! i # mid @ xs ! j # post"
    using xs1 xs2 by simp
  have mf: "List.map_filter f xs =
      List.map_filter f pre @ a # List.map_filter f mid @ b # List.map_filter f post"
    by (subst xs) (simp add: map_filter_append List.map_filter_simps assms)
  let ?i = "length (List.map_filter f pre)"
  let ?j = "length (List.map_filter f pre) + 1 + length (List.map_filter f mid)"
  have "?i < ?j" by simp
  moreover have "?j < length (List.map_filter f xs)" by (simp add: mf)
  moreover have "List.map_filter f xs ! ?i = a" by (simp add: mf nth_append)
  moreover have "List.map_filter f xs ! ?j = b" by (simp add: mf nth_append)
  ultimately show ?thesis by blast
qed

text \<open>When the loop returns, it returns exactly the events the topics yield, one for each
  topic that yields one, in the order of the topics; and it returns exactly when no
  element panics.\<close>

lemma parseLoop_returns_exactly:
  "parseLoop topics [] = Inr ret \<Longrightarrow> ret = List.map_filter produced topics"
  using parseLoop_acc [of topics "[]" ret] by simp

lemma parseLoop_returns_iff:
  "(\<exists>ret. parseLoop ts acc = Inr ret) \<longleftrightarrow> (\<forall>t \<in> set ts. \<exists>r. parseElement t = Inr r)"
proof (induction ts arbitrary: acc)
  case Nil
  then show ?case by simp
next
  case (Cons t ts)
  show ?case
  proof (cases "parseElement t")
    case (Inl p)
    then show ?thesis by simp
  next
    case (Inr r)
    then show ?thesis
      using Cons.IH by (cases r) simp_all
  qed
qed

lemma parseLoop_order_when_returning:
  assumes "parseLoop topics [] = Inr ret" "i < j" "j < length topics"
    "parseElement (topics ! i) = Inr (Some a)" "parseElement (topics ! j) = Inr (Some b)"
  shows "\<exists>i' j'. i' < j' \<and> j' < length ret \<and> ret ! i' = a \<and> ret ! j' = b"
proof -
  have ret: "ret = List.map_filter produced topics"
    using assms(1) by (rule parseLoop_returns_exactly)
  have "produced (topics ! i) = Some a" "produced (topics ! j) = Some b"
    using assms by (simp_all add: produced_def)
  from map_filter_order [OF assms(2,3) this] show ?thesis
    unfolding ret .
qed

text \<open>
  Claim C9, at an input the code can receive: three topics, of which the first and the
  second each yield an event and the third has a title of two tokens, a date and a time.
  The loop panics on the third topic when it reads the token at index 2, and returns no
  list: the events of the first two topics appear in no output, in any order, and
  \<open>getScheduledEvents\<close> ends in the panic with \<open>Events\<close> as it was.
\<close>

theorem parseLoop_panics_after_events:
  "parseElement \<lparr>ID = 42, Topic.Title = ''12/05/2024 18:00 - 20:00 Lockpicking Workshop'',
                  Slug = ''lockpicking-night''\<rparr> =
     Inr (Some \<lparr>Title = ''Lockpicking Workshop'', Date = ''12/05/2024'', Begin = ''18:00'',
                End = ''20:00'',
                URL = ''https://community.lambdaspace.gr/t/lockpicking-night/42''\<rparr>)
   \<and> parseElement \<lparr>ID = 44, Topic.Title = ''13/05/2024 19:00 General Meetup'',
                    Slug = ''meetup''\<rparr> =
     Inr (Some \<lparr>Title = ''General Meetup'', Date = ''13/05/2024'', Begin = ''19:00'',
                End = [], URL = ''https://community.lambdaspace.gr/t/meetup/44''\<rparr>)
   \<and> parseLoop
       [\<lparr>ID = 42, Topic.Title = ''12/05/2024 18:00 - 20:00 Lockpicking Workshop'',
          Slug = ''lockpicking-night''\<rparr>,
        \<lparr>ID = 44, Topic.Title = ''13/05/2024 19:00 General Meetup'', Slug = ''meetup''\<rparr>,
        \<lparr>ID = 45, Topic.Title = ''13/05/2024 19:00'', Slug = ''short''\<rparr>] [] =
     Inl IndexOutOfRange
   \<and> getScheduledEvents
       (\<lambda>body.
          ([\<lparr>ID = 42, Topic.Title = ''12/05/2024 18:00 - 20:00 Lockpicking Workshop'',
              Slug = ''lockpicking-night''\<rparr>,
            \<lparr>ID = 44, Topic.Title = ''13/05/2024 19:00 General Meetup'', Slug = ''meetup''\<rparr>,
            \<lparr>ID = 45, Topic.Title = ''13/05/2024 19:00'', Slug = ''short''\<rparr>], None))
       (Some \<lparr>Body = (''{}'', None)\<rparr>, None) \<lparr>Events = [], Log = []\<rparr> =
     Inl (IndexOutOfRange, \<lparr>Events = [], Log = []\<rparr>)"
  by code_simp

section \<open>Properties of getScheduledEvents\<close>

lemma fetchHTTPResource_nil_response:
  "fetchHTTPResource (None, err) lg = Inl (NilPointerDereference, check err lg)"
  by (simp add: fetchHTTPResource_def)

lemma fetchHTTPResource_response:
  "fetchHTTPResource (Some r, err) lg =
     Inr (Body r, check (snd (Body r)) (check err lg))"
  by (simp add: fetchHTTPResource_def Let_def)

lemma getScheduledEvents_read_error:
  "getScheduledEvents unmarshal (Some \<lparr>Body = (bytes, Some e)\<rparr>, err) s =
     Inr (s\<lparr>Log := check err (Log s) @ [e, e]\<rparr>)"
  by (simp add: getScheduledEvents_def fetchHTTPResource_def check_def Let_def)

text \<open>When the body is read and the decoder fails leaving no topic (a payload that is not
  JSON, an empty body), the decoder's error is logged and \<open>Events\<close> stays as it was.\<close>

lemma getScheduledEvents_decode_error:
  "unmarshal bytes = ([], Some e) \<Longrightarrow>
   getScheduledEvents unmarshal (Some \<lparr>Body = (bytes, None)\<rparr>, None) s =
     Inr (s\<lparr>Log := Log s @ [e]\<rparr>)"
  by (simp add: getScheduledEvents_def fetchHTTPResource_def check_def Let_def)

text \<open>
  Claim C2, at an input the code can receive: \<open>httpClient.Get\<close> fails and returns no
  response (a network error). Whatever the decoder and the state, the error is logged and
  then the refresh panics on the \<open>nil\<close> response instead of returning.
\<close>

theorem getScheduledEvents_nil_response_panics:
  "getScheduledEvents unmarshal (None, Some e) s =
     Inl (NilPointerDereference, s\<lparr>Log := Log s @ [e]\<rparr>)"
  by (simp add: getScheduledEvents_def fetchHTTPResource_def check_def)

text \<open>
  Claim C5, as amended. When the body has been read without error and the extraction on
  the decoded topics returns the empty list, \<open>getScheduledEvents\<close> returns and leaves
  \<open>Events\<close> as it was (only the log may grow, by the decoder's error); and whenever
  \<open>getScheduledEvents\<close> returns, \<open>Events\<close> is either what it was or a non-empty list.
  The function has no result, so nothing is reported to its caller.
\<close>

theorem getScheduledEvents_empty_keeps_events:
  "(fetchHTTPResource got (Log s) = Inr ((body, None), lg)
      \<and> parseLoop (fst (unmarshal body)) [] = Inr [] \<longrightarrow>
      getScheduledEvents unmarshal got s = Inr (s\<lparr>Log := check (snd (unmarshal body)) lg\<rparr>))
   \<and> (getScheduledEvents unmarshal got s = Inr s' \<longrightarrow>
      Events s' = Events s \<or> Events s' \<noteq> [])"
proof (intro conjI impI)
  assume "fetchHTTPResource got (Log s) = Inr ((body, None), lg)
      \<and> parseLoop (fst (unmarshal body)) [] = Inr []"
  then show "getScheduledEvents unmarshal got s =
      Inr (s\<lparr>Log := check (snd (unmarshal body)) lg\<rparr>)"
    by (simp add: getScheduledEvents_def Let_def)
next
  assume "getScheduledEvents unmarshal got s = Inr s'"
  then show "Events s' = Events s \<or> Events s' \<noteq> []"
    by (auto simp: getScheduledEvents_def Let_def
        split: sum.splits prod.splits option.splits if_splits)
qed

theorem getScheduledEvents_empty_keeps_events_witness:
  "getScheduledEvents
     (\<lambda>body. ([\<lparr>ID = 2, Topic.Title = ''Open Social Night'', Slug = ''s''\<rparr>], None))
     (Some \<lparr>Body = (''{}'', None)\<rparr>, None)
     \<lparr>Events = [\<lparr>Title = ''Party'', Date = ''12/05/2024'', Begin = ''18:00'', End = [],
                  URL = ''u''\<rparr>], Log = []\<rparr> =
   Inr \<lparr>Events = [\<lparr>Title = ''Party'', Date = ''12/05/2024'', Begin = ''18:00'', End = [],
                  URL = ''u''\<rparr>], Log = []\<rparr>
   \<and> [\<lparr>Title = ''Party'', Date = ''12/05/2024'', Begin = ''18:00'', End = [],
                  URL = ''u''\<rparr>] \<noteq> []"
proof -
  let ?um = "\<lambda>body::string.
      ([\<lparr>ID = 2, Topic.Title = ''Open Social Night'', Slug = ''s''\<rparr>], None :: error option)"
  let ?got = "(Some \<lparr>Body = (''{}'', None)\<rparr>, None :: error option)"
  let ?s = "\<lparr>Events = [\<lparr>Title = ''Party'', Date = ''12/05/2024'', Begin = ''18:00'',
                  End = [], URL = ''u''\<rparr>], Log = []\<rparr>"
  have f: "fetchHTTPResource ?got (Log ?s) = Inr ((''{}'', None), [])"
    by (simp add: fetchHTTPResource_def check_def)
  have p: "parseLoop (fst (?um ''{}'')) [] = Inr []"
    by code_simp
  from getScheduledEvents_empty_keeps_events [of ?got ?s "''{}''" "[]" ?um] f p
  have r: "getScheduledEvents ?um ?got ?s = Inr ?s"
    by (simp add: check_def)
  from getScheduledEvents_empty_keeps_events [of ?got ?s "''{}''" "[]" ?um ?s] r
  have "Events ?s = Events ?s \<or> Events ?s \<noteq> []"
    by blast
  with r show ?thesis by simp
qed

text \<open>
  Claim C5 as it is stated fails in its last part. With the same decoder, state and
  answer of the server but for the body, a refresh whose extraction is empty (body
  \<open>A\<close>) and a refresh that publishes what was published before (body \<open>B\<close>)
  end in the same result: nothing tells the caller of the first that it did not succeed.
\<close>

theorem getScheduledEvents_empty_not_reported_counterexample:
  "parseLoop [\<lparr>ID = 2, Topic.Title = ''Open Social Night'', Slug = ''s''\<rparr>] [] = Inr []
   \<and> parseLoop [\<lparr>ID = 1, Topic.Title = ''12/05/2024 18:00 Party'', Slug = ''s''\<rparr>] [] =
       Inr [\<lparr>Title = ''Party'', Date = ''12/05/2024'', Begin = ''18:00'', End = [],
             URL = ''https://community.lambdaspace.gr/t/s/1''\<rparr>]
   \<and> getScheduledEvents
        (\<lambda>body. if body = ''A''
           then ([\<lparr>ID = 2, Topic.Title = ''Open Social Night'', Slug = ''s''\<rparr>], None)
           else ([\<lparr>ID = 1, Topic.Title = ''12/05/2024 18:00 Party'', Slug = ''s''\<rparr>], None))
        (Some \<lparr>Body = (''A'', None)\<rparr>, None)
        \<lparr>Events = [\<lparr>Title = ''Party'', Date = ''12/05/2024'', Begin = ''18:00'', End = [],
                     URL = ''https://community.lambdaspace.gr/t/s/1''\<rparr>], Log = []\<rparr>
     = getScheduledEvents
        (\<lambda>body. if body = ''A''
           then ([\<lparr>ID = 2, Topic.Title = ''Open Social Night'', Slug = ''s''\<rparr>], None)
           else ([\<lparr>ID = 1, Topic.Title = ''12/05/2024 18:00 Party'', Slug = ''s''\<rparr>], None))
        (Some \<lparr>Body = (''B'', None)\<rparr>, None)
        \<lparr>Events = [\<lparr>Title = ''Party'', Date = ''12/05/2024'', Begin = ''18:00'', End = [],
                     URL = ''https://community.lambdaspace.gr/t/s/1''\<rparr>], Log = []\<rparr>"
  by code_simp

end
